theory Spec2Isabelle
  imports Complex_Main "HOL-Library.Sublist"
begin

section \<open>Step Masters: the challenge engine of \<^verbatim>\<open>utils.js\<close>\<close>

text \<open>
  The development embeds the challenge logic of the app (catalog, generation, detector
  state, the four detectors and their dispatcher) and the polling tick of the challenge
  screen of \<^verbatim>\<open>App.js\<close>.

  Conventions of the embedding.
  \<^item> A JavaScript number is a \<^typ>\<open>real\<close>: the detectors compare, add and divide
    sensor readings, and the properties below are about which branch is taken and what
    is accumulated. The non-finite numbers of JavaScript arise in this code only from a
    division by zero (a sensitivity multiplier of zero, a rotation goal reached with no
    accumulated rotation, a tolerance of zero); in every theorem below the divisors that
    matter are non-zero, by a hypothesis or by the branch taken.
  \<^item> An optional property of an object is an \<^typ>\<open>'a option\<close>, \<open>None\<close> for
    \<^verbatim>\<open>undefined\<close>; truthiness of a number is being defined and non-zero.
  \<^item> The module-level tracking variables are one record, passed in and returned.
  \<^item> \<^verbatim>\<open>Date.now()\<close> is the argument \<open>now\<close> (milliseconds) of the tick.
  \<^item> \<^verbatim>\<open>playSound\<close> is fire-and-forget; the calls of one tick are returned as a list.
  \<^item> Reading a property of \<^verbatim>\<open>undefined\<close> raises \<^verbatim>\<open>TypeError\<close>; the tracking
    variables written before the raise stay written.
\<close>

subsection \<open>Data\<close>

text \<open>A 3-axis reading \<^verbatim>\<open>{x, y, z}\<close>.\<close>

record vec3 =
  vx :: real
  vy :: real
  vz :: real

text \<open>The value of \<^verbatim>\<open>getSensorData()\<close>: the latest reading of each sensor, the zero
  vector for a sensor that never reported.\<close>

record sensor_data =
  accelerometer :: vec3
  gyroscope :: vec3
  magnetometer :: vec3

text \<open>The availability flags of \<^verbatim>\<open>availableSensors\<close>, read through \<^verbatim>\<open>getSensorStatus()\<close>.\<close>

record sensor_status =
  accelerometer_available :: bool
  gyroscope_available :: bool
  magnetometer_available :: bool

text \<open>\<^verbatim>\<open>SOUND_TYPES\<close>.\<close>

datatype sound_type =
  CHALLENGE_START | CHALLENGE_COMPLETE | CHALLENGE_FAIL | STEP_DETECTED
  | TILT_DETECTED | DIRECTION_MATCHED | UI_CLICK

text \<open>
  The property \<^verbatim>\<open>direction\<close> of a challenge is a number for ROTATE templates and a
  compass label for DIRECTION templates.
\<close>

datatype direction_field = DirUndefined | DirNumber real | DirLabel string

text \<open>
  An entry of the catalog \<^verbatim>\<open>CHALLENGES\<close>; a challenge is an entry with the property
  \<^verbatim>\<open>type\<close> added (\<^verbatim>\<open>{type: selectedType, ...selectedChallenge}\<close>).
\<close>

record template =
  instruction :: "string option"
  hint :: "string option"
  count :: "real option"
  intensity :: "real option"
  degrees :: "real option"
  direction :: direction_field
  directions :: "string list option"
  duration :: "real option"
  tolerance :: "real option"

record challenge = template +
  ctype :: string

record thresholds =
  STEP_MAGNITUDE :: real
  ROTATION_SPEED :: real
  TILT_ANGLE :: real
  DIRECTION_TOLERANCE :: real

definition THRESHOLDS :: thresholds where
  "THRESHOLDS = \<lparr>STEP_MAGNITUDE = 12 / 10, ROTATION_SPEED = 5 / 10,
     TILT_ANGLE = 5 / 10, DIRECTION_TOLERANCE = 20\<rparr>"

text \<open>The tracking variables \<^verbatim>\<open>lastAccelMagnitude\<close> ... \<^verbatim>\<open>directionMatchDuration\<close>.\<close>

record detector_state =
  lastAccelMagnitude :: real
  stepCount :: nat
  rotationProgress :: real
  tiltStates :: "string list"
  directionMatched :: bool
  lastDirectionMatchTime :: int
  directionMatchDuration :: real

definition resetChallengeTracking :: detector_state where
  "resetChallengeTracking = \<lparr>lastAccelMagnitude = 0, stepCount = 0, rotationProgress = 0,
     tiltStates = [], directionMatched = False, lastDirectionMatchTime = 0,
     directionMatchDuration = 0\<rparr>"

record verification_result =
  completed :: bool
  performance :: real

datatype error = TypeError

text \<open>
  What one call of a detector leaves behind: the tracking variables, the sounds requested,
  and the value returned or the exception raised.
\<close>

record tick =
  tracking :: detector_state
  played :: "sound_type list"
  outcome :: "error + verification_result"

definition returns :: "detector_state \<Rightarrow> sound_type list \<Rightarrow> bool \<Rightarrow> real \<Rightarrow> tick" where
  "returns s snds c p =
     \<lparr>tracking = s, played = snds, outcome = Inr \<lparr>completed = c, performance = p\<rparr>\<rparr>"

definition raises :: "detector_state \<Rightarrow> sound_type list \<Rightarrow> error \<Rightarrow> tick" where
  "raises s snds e = \<lparr>tracking = s, played = snds, outcome = Inl e\<rparr>"

text \<open>Truthiness of an optional number: defined and not zero.\<close>

fun truthy :: "real option \<Rightarrow> bool" where
  "truthy None = False"
| "truthy (Some v) = (v \<noteq> 0)"

subsection \<open>RUN: rising-edge step counting\<close>

definition magnitude_of :: "vec3 \<Rightarrow> real" where
  "magnitude_of a = sqrt ((vx a)\<^sup>2 + (vy a)\<^sup>2 + (vz a)\<^sup>2)"

definition isStep :: "thresholds \<Rightarrow> detector_state \<Rightarrow> vec3 \<Rightarrow> bool" where
  "isStep thr s a =
     (magnitude_of a > STEP_MAGNITUDE thr \<and> lastAccelMagnitude s \<le> STEP_MAGNITUDE thr)"

definition verifyRunChallenge ::
  "challenge \<Rightarrow> vec3 \<Rightarrow> thresholds \<Rightarrow> detector_state \<Rightarrow> tick" where
  "verifyRunChallenge ch a thr s =
     (let step = isStep thr s a;
          s1 = s\<lparr>lastAccelMagnitude := magnitude_of a\<rparr>;
          s2 = (if step then s1\<lparr>stepCount := stepCount s1 + 1\<rparr> else s1);
          snds = (if step then [STEP_DETECTED] else [])
      in case count ch of
           None \<Rightarrow> returns s2 snds False 0
         | Some c \<Rightarrow>
             if c \<noteq> 0 \<and> real (stepCount s2) \<ge> c
             then returns (s2\<lparr>stepCount := 0\<rparr>) snds True (min 1 (real (stepCount s2) / c))
             else returns s2 snds False (if c \<noteq> 0 then real (stepCount s2) / c else 0))"

subsection \<open>ROTATE: accumulated rotation\<close>

definition rotationAxis :: "challenge \<Rightarrow> vec3 \<Rightarrow> real" where
  "rotationAxis ch g =
     (if direction ch = DirNumber 1 then vz g
      else if direction ch = DirNumber (- 1) then - vz g
      else \<bar>vz g\<bar>)"

definition verifyRotateChallenge ::
  "challenge \<Rightarrow> vec3 \<Rightarrow> thresholds \<Rightarrow> detector_state \<Rightarrow> tick" where
  "verifyRotateChallenge ch g thr s =
     (let axis = rotationAxis ch g;
          s1 = (if \<bar>axis\<bar> > ROTATION_SPEED thr
                then s\<lparr>rotationProgress := rotationProgress s + \<bar>axis\<bar> * (180 / pi) / 10\<rparr>
                else s)
      in case degrees ch of
           None \<Rightarrow> returns s1 [] False 0
         | Some d \<Rightarrow>
             if d \<noteq> 0 \<and> rotationProgress s1 \<ge> d
             then returns (s1\<lparr>rotationProgress := 0\<rparr>) [] True (min 1 (d / rotationProgress s1))
             else returns s1 [] False (if d \<noteq> 0 then rotationProgress s1 / d else 0))"

subsection \<open>TILT: classification, recorded transitions, hold and sequence modes\<close>

definition tiltDetected :: "thresholds \<Rightarrow> vec3 \<Rightarrow> string" where
  "tiltDetected thr g =
     (if vx g > TILT_ANGLE thr then ''forward''
      else if vx g < - TILT_ANGLE thr then ''backward''
      else if vy g > TILT_ANGLE thr then ''right''
      else if vy g < - TILT_ANGLE thr then ''left''
      else [])"

text \<open>A tilt is recorded when it is not the empty label and differs from the last one recorded.\<close>

definition isNewTilt :: "string \<Rightarrow> string list \<Rightarrow> bool" where
  "isNewTilt td ts = (td \<noteq> [] \<and> (length ts = 0 \<or> last ts \<noteq> td))"

definition recordTilt :: "string \<Rightarrow> string list \<Rightarrow> string list" where
  "recordTilt td ts = (if isNewTilt td ts then ts @ [td] else ts)"

text \<open>
  The condition \<^verbatim>\<open>challenge.duration && tiltDetected === challenge.directions[0]\<close>:
  the duration to hold for when it is true, \<open>None\<close> when it is false, and the
  \<^verbatim>\<open>TypeError\<close> of indexing an absent \<^verbatim>\<open>directions\<close>.
\<close>

definition holdCondition :: "challenge \<Rightarrow> string \<Rightarrow> error + real option" where
  "holdCondition ch td =
     (case duration ch of
        None \<Rightarrow> Inr None
      | Some dur \<Rightarrow>
          if dur = 0 then Inr None
          else (case directions ch of
                  None \<Rightarrow> Inl TypeError
                | Some [] \<Rightarrow> Inr None
                | Some (d # _) \<Rightarrow> Inr (if td = d then Some dur else None)))"

text \<open>
  The hold-mode block; the flag says whether it returned \<^verbatim>\<open>{completed: true, performance: 1.0}\<close>.
\<close>

definition holdMode :: "real option \<Rightarrow> int \<Rightarrow> detector_state \<Rightarrow> detector_state \<times> bool" where
  "holdMode h now s =
     (case h of
        None \<Rightarrow> (s\<lparr>lastDirectionMatchTime := 0\<rparr>, False)
      | Some dur \<Rightarrow>
          if lastDirectionMatchTime s = 0 then (s\<lparr>lastDirectionMatchTime := now\<rparr>, False)
          else
            (let s' = s\<lparr>directionMatchDuration :=
                         real_of_int (now - lastDirectionMatchTime s) / 1000\<rparr>
             in if directionMatchDuration s' \<ge> dur
                then (s'\<lparr>tiltStates := [], lastDirectionMatchTime := 0,
                          directionMatchDuration := 0\<rparr>, True)
                else (s', False)))"

text \<open>
  The loop \<^verbatim>\<open>for (i = 0; i < tiltStates.length && directionIndex < directions.length; i++)\<close>;
  the value is the final \<^verbatim>\<open>directionIndex\<close>.
\<close>

function sequenceScan :: "string list \<Rightarrow> string list \<Rightarrow> nat \<Rightarrow> nat \<Rightarrow> nat" where
  "sequenceScan ts ds i directionIndex =
     (if i < length ts \<and> directionIndex < length ds
      then (if ts ! i = ds ! directionIndex
            then sequenceScan ts ds (i + 1) (directionIndex + 1)
            else sequenceScan ts ds (i + 1) directionIndex)
      else directionIndex)"
  by pat_completeness auto
termination
  by (relation "measure (\<lambda>(ts, ds, i, directionIndex). length ts - i)") auto

declare sequenceScan.simps [simp del]

definition verifyTiltChallenge ::
  "challenge \<Rightarrow> vec3 \<Rightarrow> thresholds \<Rightarrow> int \<Rightarrow> detector_state \<Rightarrow> tick" where
  "verifyTiltChallenge ch g thr now s =
     (let td = tiltDetected thr g;
          snds = (if isNewTilt td (tiltStates s) then [TILT_DETECTED] else []);
          s1 = s\<lparr>tiltStates := recordTilt td (tiltStates s)\<rparr>
      in case holdCondition ch td of
           Inl e \<Rightarrow> raises s1 snds e
         | Inr h \<Rightarrow>
             (let (s2, held) = holdMode h now s1
              in if held then returns s2 snds True 1
                 else (case directions ch of
                         Some ds \<Rightarrow>
                           if sequenceScan (tiltStates s2) ds 0 0 = length ds
                           then returns (s2\<lparr>tiltStates := []\<rparr>) snds True 1
                           else returns s2 snds False
                                  (min (real (length (tiltStates s2)) / real (length ds)) 1)
                       | None \<Rightarrow>
                           returns s2 snds False
                             (case duration ch of
                                None \<Rightarrow> 0
                              | Some dur \<Rightarrow>
                                  if dur \<noteq> 0 then directionMatchDuration s2 / dur else 0))))"

subsection \<open>DIRECTION: compass heading held for two seconds\<close>

text \<open>\<^verbatim>\<open>Math.atan2\<close> of the platform, on real numbers.\<close>

definition atan2 :: "real \<Rightarrow> real \<Rightarrow> real" where
  "atan2 y x =
     (if x > 0 then arctan (y / x)
      else if x < 0 then (if y \<ge> 0 then arctan (y / x) + pi else arctan (y / x) - pi)
      else if y > 0 then pi / 2
      else if y < 0 then - (pi / 2)
      else 0)"

definition normalizedHeading :: "vec3 \<Rightarrow> real" where
  "normalizedHeading m =
     (let heading = atan2 (vy m) (vx m) * (180 / pi)
      in if heading < 0 then heading + 360 else heading)"

fun getHeadingFromDirection :: "direction_field \<Rightarrow> real" where
  "getHeadingFromDirection (DirLabel l) =
     (if l = ''N'' then 0
      else if l = ''NE'' then 45
      else if l = ''E'' then 90
      else if l = ''SE'' then 135
      else if l = ''S'' then 180
      else if l = ''SW'' then 225
      else if l = ''W'' then 270
      else if l = ''NW'' then 315
      else 0)"
| "getHeadingFromDirection _ = 0"

definition headingDiff :: "challenge \<Rightarrow> vec3 \<Rightarrow> real" where
  "headingDiff ch m =
     (let diff = \<bar>normalizedHeading m - getHeadingFromDirection (direction ch)\<bar>
      in if diff > 180 then 360 - diff else diff)"

text \<open>\<^verbatim>\<open>challenge.tolerance || thresholds.DIRECTION_TOLERANCE\<close>.\<close>

definition toleranceOf :: "challenge \<Rightarrow> thresholds \<Rightarrow> real" where
  "toleranceOf ch thr =
     (case tolerance ch of
        None \<Rightarrow> DIRECTION_TOLERANCE thr
      | Some t \<Rightarrow> if t \<noteq> 0 then t else DIRECTION_TOLERANCE thr)"

definition verifyDirectionChallenge ::
  "challenge \<Rightarrow> vec3 \<Rightarrow> thresholds \<Rightarrow> int \<Rightarrow> detector_state \<Rightarrow> tick" where
  "verifyDirectionChallenge ch m thr now s =
     (let diff = headingDiff ch m;
          tol = toleranceOf ch thr;
          progress = max 0 (1 - diff / 180)
      in if diff \<le> tol
         then (if \<not> directionMatched s
               then returns (s\<lparr>directionMatched := True, lastDirectionMatchTime := now\<rparr>)
                      [DIRECTION_MATCHED] False progress
               else if real_of_int (now - lastDirectionMatchTime s) / 1000 \<ge> 2
               then returns (s\<lparr>directionMatched := False, lastDirectionMatchTime := 0\<rparr>)
                      [] True (1 - diff / tol)
               else returns s [] False progress)
         else returns (s\<lparr>directionMatched := False, lastDirectionMatchTime := 0\<rparr>)
                [] False progress)"

subsection \<open>Dispatch\<close>

definition adjustedThresholds :: "real \<Rightarrow> thresholds" where
  "adjustedThresholds sensitivityMultiplier =
     \<lparr>STEP_MAGNITUDE = STEP_MAGNITUDE THRESHOLDS / sensitivityMultiplier,
      ROTATION_SPEED = ROTATION_SPEED THRESHOLDS / sensitivityMultiplier,
      TILT_ANGLE = TILT_ANGLE THRESHOLDS / sensitivityMultiplier,
      DIRECTION_TOLERANCE = DIRECTION_TOLERANCE THRESHOLDS * sensitivityMultiplier\<rparr>"

text \<open>The default parameter \<^verbatim>\<open>sensitivityMultiplier = 1.0\<close>.\<close>

fun multiplierOrDefault :: "real option \<Rightarrow> real" where
  "multiplierOrDefault None = 1"
| "multiplierOrDefault (Some m) = m"

definition dispatch ::
  "challenge \<Rightarrow> sensor_data \<Rightarrow> thresholds \<Rightarrow> int \<Rightarrow> detector_state \<Rightarrow> tick" where
  "dispatch ch sd thr now s =
     (if ctype ch = ''RUN'' then verifyRunChallenge ch (accelerometer sd) thr s
      else if ctype ch = ''ROTATE'' then verifyRotateChallenge ch (gyroscope sd) thr s
      else if ctype ch = ''TILT'' then verifyTiltChallenge ch (gyroscope sd) thr now s
      else if ctype ch = ''DIRECTION''
      then verifyDirectionChallenge ch (magnetometer sd) thr now s
      else if magnitude_of (accelerometer sd) > 25 / 10 then returns s [] True (7 / 10)
      else returns s [] False 0)"

definition verifyChallengeCompletion ::
  "challenge option \<Rightarrow> sensor_data option \<Rightarrow> real option \<Rightarrow> int \<Rightarrow> detector_state \<Rightarrow> tick"
  where
  "verifyChallengeCompletion challenge sensorData sensitivityMultiplier now s =
     (case challenge of
        None \<Rightarrow> returns s [] False 0
      | Some ch \<Rightarrow>
          (case sensorData of
             None \<Rightarrow> returns s [] False 0
           | Some sd \<Rightarrow>
               dispatch ch sd (adjustedThresholds (multiplierOrDefault sensitivityMultiplier))
                 now s))"

subsection \<open>Catalog and generation\<close>

text \<open>The empty object; an entry of the catalog sets some of its properties.\<close>

definition emptyObject :: template where
  "emptyObject = \<lparr>instruction = None, hint = None, count = None, intensity = None,
     degrees = None, direction = DirUndefined, directions = None, duration = None,
     tolerance = None\<rparr>"

text \<open>The degree sign of the ROTATE instructions, as its two UTF-8 bytes.\<close>

definition degreeSign :: string where
  "degreeSign = [CHR 0xC2, CHR 0xB0]"

definition runEntry :: "string \<Rightarrow> real \<Rightarrow> real \<Rightarrow> string \<Rightarrow> template" where
  "runEntry i c n h =
     emptyObject\<lparr>instruction := Some i, count := Some c, intensity := Some n, hint := Some h\<rparr>"

definition rotateEntry :: "string \<Rightarrow> real \<Rightarrow> real \<Rightarrow> string \<Rightarrow> template" where
  "rotateEntry i d r h =
     emptyObject\<lparr>instruction := Some i, degrees := Some d, direction := DirNumber r,
       hint := Some h\<rparr>"

definition tiltEntry :: "string \<Rightarrow> string list \<Rightarrow> real option \<Rightarrow> string \<Rightarrow> template" where
  "tiltEntry i ds dur h =
     emptyObject\<lparr>instruction := Some i, directions := Some ds, duration := dur, hint := Some h\<rparr>"

definition directionEntry :: "string \<Rightarrow> string \<Rightarrow> real \<Rightarrow> string \<Rightarrow> template" where
  "directionEntry i l t h =
     emptyObject\<lparr>instruction := Some i, direction := DirLabel l, tolerance := Some t,
       hint := Some h\<rparr>"

definition CHALLENGES :: "string \<Rightarrow> template list option" where
  "CHALLENGES ty =
     (if ty = ''RUN'' then Some
        [runEntry ''Run in place for 3 seconds'' 3 (15 / 10) ''Move up and down quickly'',
         runEntry ''Take 5 steps forward'' 5 (12 / 10) ''Step forward with your device'',
         runEntry ''Jump 3 times'' 3 2 ''Quick vertical movements'',
         runEntry ''March in place for 5 seconds'' 5 (13 / 10) ''Raise knees high'']
      else if ty = ''ROTATE'' then Some
        [rotateEntry (''Rotate device 360'' @ degreeSign @ '' clockwise'') 360 1
           ''Turn your device in a full circle'',
         rotateEntry (''Rotate device 360'' @ degreeSign @ '' counter-clockwise'') 360 (- 1)
           ''Turn your device in a full circle in the opposite direction'',
         rotateEntry (''Rotate device 180'' @ degreeSign @ '' and back'') 180 0
           ''Turn halfway around and return'',
         rotateEntry ''Spin around with your device'' 360 0 ''Turn your whole body'']
      else if ty = ''TILT'' then Some
        [tiltEntry ''Tilt device left then right'' [''left'', ''right''] None
           ''Tilt from side to side'',
         tiltEntry ''Tilt device forward then backward'' [''forward'', ''backward''] None
           ''Tilt forward and backward'',
         tiltEntry ''Tilt device in a circle'' [''left'', ''forward'', ''right'', ''backward'']
           None ''Move in a circular pattern'',
         tiltEntry ''Hold device tilted left for 3 seconds'' [''left''] (Some 3)
           ''Keep it steady'']
      else if ty = ''DIRECTION'' then Some
        [directionEntry ''Face North'' ''N'' 20 ''Use the compass to find North'',
         directionEntry ''Face East'' ''E'' 20 ''Use the compass to find East'',
         directionEntry ''Face South'' ''S'' 20 ''Use the compass to find South'',
         directionEntry ''Face West'' ''W'' 20 ''Use the compass to find West'',
         directionEntry ''Rotate slowly to face South-East'' ''SE'' 20
           ''Between South and East'']
      else None)"

text \<open>\<^verbatim>\<open>{type: selectedType, ...selectedChallenge}\<close>.\<close>

definition withType :: "string \<Rightarrow> template \<Rightarrow> challenge" where
  "withType ty t =
     \<lparr>instruction = instruction t, hint = hint t, count = count t, intensity = intensity t,
      degrees = degrees t, direction = direction t, directions = directions t,
      duration = duration t, tolerance = tolerance t, ctype = ty\<rparr>"

definition basicChallenge :: challenge where
  "basicChallenge =
     withType ''BASIC''
       (emptyObject\<lparr>instruction := Some ''Shake your device'',
          hint := Some ''No advanced sensors detected, just shake the device''\<rparr>)"

definition availableChallengeTypes :: "sensor_status \<Rightarrow> string list" where
  "availableChallengeTypes sensors =
     (if accelerometer_available sensors then [''RUN''] else [])
     @ (if gyroscope_available sensors then [''ROTATE'', ''TILT''] else [])
     @ (if magnetometer_available sensors then [''DIRECTION''] else [])"

text \<open>Reading an array at an index: \<^verbatim>\<open>undefined\<close> outside the array.\<close>

definition arrayIndex :: "'a list \<Rightarrow> int \<Rightarrow> 'a option" where
  "arrayIndex xs i = (if 0 \<le> i \<and> i < int (length xs) then Some (xs ! nat i) else None)"

text \<open>
  \<open>random1\<close> and \<open>random2\<close> are the two values of \<^verbatim>\<open>Math.random()\<close>, which the
  platform draws from the interval from 0 (included) to 1 (excluded).
\<close>

definition generateChallenge :: "sensor_status \<Rightarrow> real \<Rightarrow> real \<Rightarrow> error + challenge" where
  "generateChallenge sensors random1 random2 =
     (let types = availableChallengeTypes sensors
      in if length types = 0 then Inr basicChallenge
         else (case arrayIndex types \<lfloor>random1 * real (length types)\<rfloor> of
                 None \<Rightarrow> Inl TypeError
               | Some selectedType \<Rightarrow>
                   (case CHALLENGES selectedType of
                      None \<Rightarrow> Inl TypeError
                    | Some challengesForType \<Rightarrow>
                        (case arrayIndex challengesForType
                                \<lfloor>random2 * real (length challengesForType)\<rfloor> of
                           None \<Rightarrow> Inr (withType selectedType emptyObject)
                         | Some selectedChallenge \<Rightarrow>
                             Inr (withType selectedType selectedChallenge)))))"

subsection \<open>The settings screen and the polling tick of the challenge screen\<close>

record difficulty_settings =
  sensitivity :: real
  timeMultiplier :: real

definition DEFAULT_SETTINGS :: difficulty_settings where
  "DEFAULT_SETTINGS = \<lparr>sensitivity = 1, timeMultiplier = 1\<rparr>"

text \<open>
  What \<^verbatim>\<open>changeDifficulty\<close> persists through \<^verbatim>\<open>setDifficultySettings\<close> for a level.
\<close>

definition changeDifficulty :: "string \<Rightarrow> difficulty_settings" where
  "changeDifficulty level =
     (if level = ''easy'' then \<lparr>sensitivity = 7 / 10, timeMultiplier = 13 / 10\<rparr>
      else if level = ''medium'' then \<lparr>sensitivity = 1, timeMultiplier = 1\<rparr>
      else if level = ''hard'' then \<lparr>sensitivity = 13 / 10, timeMultiplier = 7 / 10\<rparr>
      else \<lparr>sensitivity = 1, timeMultiplier = 1\<rparr>)"

text \<open>
  The interval callback of \<^verbatim>\<open>ChallengeScreen\<close>, run every 100 ms while a challenge is
  active: \<^verbatim>\<open>verifyChallengeCompletion(challenge, sensorState)\<close>. The persisted settings
  are the first argument here; the callback passes two arguments and does not read them.
\<close>

definition checkCompletionInterval ::
  "difficulty_settings \<Rightarrow> challenge \<Rightarrow> sensor_data \<Rightarrow> int \<Rightarrow> detector_state \<Rightarrow> tick" where
  "checkCompletionInterval persisted ch sensorState now s =
     verifyChallengeCompletion (Some ch) (Some sensorState) None now s"

subsection \<open>Runs of ticks\<close>

text \<open>
  Feeding samples one after the other to one detector: each tick starts from the tracking
  variables the tick before it left. \<open>stepIncrements\<close> tells, tick by tick, whether the
  step sound was requested, which the RUN detector does exactly where it executes
  \<^verbatim>\<open>stepCount++\<close>.
\<close>

fun runTicks :: "(vec3 \<Rightarrow> detector_state \<Rightarrow> tick) \<Rightarrow> vec3 list \<Rightarrow> detector_state \<Rightarrow> tick list"
  where
  "runTicks f [] s = []"
| "runTicks f (a # as) s = (let t = f a s in t # runTicks f as (tracking t))"

definition stepIncrements :: "tick list \<Rightarrow> bool list" where
  "stepIncrements ts = map (\<lambda>t. STEP_DETECTED \<in> set (played t)) ts"

subsection \<open>Notions of the specification\<close>

text \<open>
  A rising edge, in the specification's words: the previous magnitude is at or below the
  threshold and the current one is above it. The list tells, magnitude by magnitude,
  whether it is one; \<open>previous\<close> is the magnitude before the first.
\<close>

fun risingEdges_spec :: "real \<Rightarrow> real \<Rightarrow> real list \<Rightarrow> bool list" where
  "risingEdges_spec T previous [] = []"
| "risingEdges_spec T previous (m # ms) = (previous \<le> T \<and> m > T) # risingEdges_spec T m ms"

text \<open>
  The matched count, in the specification's words: the length of the longest prefix of
  the required list that is a subsequence of the recorded transitions.
\<close>

definition matchedCount_spec :: "string list \<Rightarrow> string list \<Rightarrow> nat" where
  "matchedCount_spec required recorded =
     Max (set (filter (\<lambda>n. subseq (take n required) recorded) [0..<length required + 1]))"

section \<open>Properties\<close>

subsection \<open>Auxiliary facts\<close>

lemma magnitude_of_x_axis: "magnitude_of \<lparr>vx = v, vy = 0, vz = 0\<rparr> = \<bar>v\<bar>"
  by (simp add: magnitude_of_def)

lemma rotate_tick_total:
  "\<exists>r. outcome (verifyRotateChallenge ch g thr s) = Inr r
     \<and> rotationProgress (tracking (verifyRotateChallenge ch g thr s))
         = (if completed r then 0
            else rotationProgress s
                 + (if \<bar>rotationAxis ch g\<bar> > ROTATION_SPEED thr
                    then \<bar>rotationAxis ch g\<bar> * (180 / pi) / 10 else 0))"
  by (cases "degrees ch") (simp_all add: verifyRotateChallenge_def Let_def returns_def)

lemma tick_default:
  "checkCompletionInterval persisted ch sd now s = dispatch ch sd (adjustedThresholds 1) now s"
  by (simp add: checkCompletionInterval_def verifyChallengeCompletion_def)

lemma run_tick_played:
  "played (verifyRunChallenge ch a thr s) = (if isStep thr s a then [STEP_DETECTED] else [])"
  by (simp add: verifyRunChallenge_def Let_def returns_def split: option.splits)

lemma run_tick_last:
  "lastAccelMagnitude (tracking (verifyRunChallenge ch a thr s)) = magnitude_of a"
  by (simp add: verifyRunChallenge_def Let_def returns_def split: option.splits)

lemma run_tick_counter:
  "\<exists>r. outcome (verifyRunChallenge ch a thr s) = Inr r
     \<and> stepCount (tracking (verifyRunChallenge ch a thr s))
         = (if completed r then 0 else stepCount s + (if isStep thr s a then 1 else 0))"
  by (cases "count ch") (simp_all add: verifyRunChallenge_def Let_def returns_def)

lemma run_tick_played_iff:
  "(played (verifyRunChallenge ch a thr s) = [STEP_DETECTED])
     = (lastAccelMagnitude s \<le> STEP_MAGNITUDE thr \<and> magnitude_of a > STEP_MAGNITUDE thr)"
  by (auto simp: run_tick_played isStep_def)

lemma run_flags:
  "stepIncrements (runTicks (\<lambda>a. verifyRunChallenge ch a thr) as s)
     = risingEdges_spec (STEP_MAGNITUDE thr) (lastAccelMagnitude s) (map magnitude_of as)"
proof (induction as arbitrary: s)
  case Nil
  show ?case by (simp add: stepIncrements_def)
next
  case (Cons a as)
  have "stepIncrements (runTicks (\<lambda>a. verifyRunChallenge ch a thr) (a # as) s)
          = isStep thr s a
            # stepIncrements (runTicks (\<lambda>a. verifyRunChallenge ch a thr) as
                (tracking (verifyRunChallenge ch a thr s)))"
    by (simp add: stepIncrements_def Let_def run_tick_played)
  then show ?case
    using Cons.IH[of "tracking (verifyRunChallenge ch a thr s)"]
    by (auto simp: run_tick_last isStep_def)
qed

lemma risingEdges_sustained:
  "\<forall>m \<in> set ms. m > T \<Longrightarrow> previous > T
   \<Longrightarrow> risingEdges_spec T previous ms = replicate (length ms) False"
  by (induction ms arbitrary: previous) auto

lemma risingEdges_run:
  "ms \<noteq> [] \<Longrightarrow> \<forall>m \<in> set ms. m > T \<Longrightarrow> previous \<le> T
   \<Longrightarrow> risingEdges_spec T previous ms = True # replicate (length ms - 1) False"
  by (cases ms) (auto simp: risingEdges_sustained)

text \<open>The scan from \<open>(i, directionIndex)\<close> reaches the end of the required list exactly
  when what is left of it is a subsequence of what is left of the recorded list.\<close>

lemma sequenceScan_complete_iff:
  "i \<le> length ts \<Longrightarrow> di \<le> length ds \<Longrightarrow>
   (sequenceScan ts ds i di = length ds) = subseq (drop di ds) (drop i ts)"
proof (induction ts ds i di rule: sequenceScan.induct)
  case (1 ts ds i di)
  show ?case
  proof (cases "i < length ts \<and> di < length ds")
    case True
    then have ts: "drop i ts = ts ! i # drop (i + 1) ts"
      and ds: "drop di ds = ds ! di # drop (di + 1) ds"
      by (simp_all add: Cons_nth_drop_Suc)
    show ?thesis
    proof (cases "ts ! i = ds ! di")
      case same: True
      have "(sequenceScan ts ds (i + 1) (di + 1) = length ds)
              = subseq (drop (di + 1) ds) (drop (i + 1) ts)"
        using "1.IH"(1)[OF True same] True by simp
      then show ?thesis
        using True same by (subst sequenceScan.simps) (simp add: ts ds)
    next
      case differ: False
      have "(sequenceScan ts ds (i + 1) di = length ds)
              = subseq (drop di ds) (drop (i + 1) ts)"
        using "1.IH"(2)[OF True differ] True "1.prems" by simp
      then show ?thesis
        using True differ by (subst sequenceScan.simps) (simp add: ts ds)
    qed
  next
    case False
    have stop: "sequenceScan ts ds i di = di"
      using False by (subst sequenceScan.simps) auto
    show ?thesis
    proof (cases "di < length ds")
      case True
      with False "1.prems" have "drop i ts = []" by simp
      moreover from True have "drop di ds \<noteq> []" by simp
      ultimately have "\<not> subseq (drop di ds) (drop i ts)"
        by (auto dest: list_emb_Nil2)
      with stop True show ?thesis by simp
    next
      case False
      with "1.prems" have "di = length ds" by simp
      with stop show ?thesis by simp
    qed
  qed
qed

lemma sequenceScan_subseq: "(sequenceScan ts ds 0 0 = length ds) = subseq ds ts"
  using sequenceScan_complete_iff[of 0 ts 0 ds] by simp

text \<open>The final index of the scan is the matched count of the specification: the length
  of the longest prefix of the required list that is a subsequence of the recorded one.\<close>

lemma sequenceScan_longest:
  "i \<le> length ts \<Longrightarrow> di \<le> length ds \<Longrightarrow>
   \<exists>k. sequenceScan ts ds i di = di + k \<and> k \<le> length ds - di
     \<and> subseq (take k (drop di ds)) (drop i ts)
     \<and> (\<forall>n. k < n \<and> n \<le> length ds - di \<longrightarrow> \<not> subseq (take n (drop di ds)) (drop i ts))"
proof (induction ts ds i di rule: sequenceScan.induct)
  case (1 ts ds i di)
  show ?case
  proof (cases "i < length ts \<and> di < length ds")
    case True
    then have ts: "drop i ts = ts ! i # drop (Suc i) ts"
      and ds: "drop di ds = ds ! di # drop (Suc di) ds"
      by (simp_all add: Cons_nth_drop_Suc)
    show ?thesis
    proof (cases "ts ! i = ds ! di")
      case same: True
      obtain k where k: "sequenceScan ts ds (i + 1) (di + 1) = di + 1 + k"
        "k \<le> length ds - (di + 1)"
        "subseq (take k (drop (di + 1) ds)) (drop (i + 1) ts)"
        "\<forall>n. k < n \<and> n \<le> length ds - (di + 1) \<longrightarrow>
            \<not> subseq (take n (drop (di + 1) ds)) (drop (i + 1) ts)"
        using "1.IH"(1)[OF True same] True by auto
      have scan: "sequenceScan ts ds i di = di + Suc k"
        using True same k(1) by (subst sequenceScan.simps) simp
      have "\<not> subseq (take n (drop di ds)) (drop i ts)" if "Suc k < n" "n \<le> length ds - di" for n
      proof -
        from that(1) have "0 < n" by simp
        then obtain n' where n': "n = Suc n'" by (cases n) auto
        with that have "k < n' \<and> n' \<le> length ds - (di + 1)" by auto
        with k(4) have "\<not> subseq (take n' (drop (di + 1) ds)) (drop (i + 1) ts)" by blast
        then show ?thesis by (simp add: ts ds n' same)
      qed
      moreover have "subseq (take (Suc k) (drop di ds)) (drop i ts)"
        using k(3) by (simp add: ts ds same)
      moreover have "Suc k \<le> length ds - di" using k(2) True by auto
      ultimately show ?thesis using scan by blast
    next
      case differ: False
      obtain k where k: "sequenceScan ts ds (i + 1) di = di + k"
        "k \<le> length ds - di"
        "subseq (take k (drop di ds)) (drop (i + 1) ts)"
        "\<forall>n. k < n \<and> n \<le> length ds - di \<longrightarrow>
            \<not> subseq (take n (drop di ds)) (drop (i + 1) ts)"
        using "1.IH"(2)[OF True differ] True "1.prems" by auto
      have scan: "sequenceScan ts ds i di = di + k"
        using True differ k(1) by (subst sequenceScan.simps) simp
      have "\<not> subseq (take n (drop di ds)) (drop i ts)" if "k < n" "n \<le> length ds - di" for n
      proof -
        from that(1) have "0 < n" by simp
        then obtain n' where n': "n = Suc n'" by (cases n) auto
        from k(4) that have "\<not> subseq (take n (drop di ds)) (drop (i + 1) ts)" by blast
        then show ?thesis using differ by (simp add: ts ds n')
      qed
      moreover have "subseq (take k (drop di ds)) (drop i ts)"
        using k(3) by (auto simp: ts)
      ultimately show ?thesis using scan k(2) by blast
    qed
  next
    case False
    have stop: "sequenceScan ts ds i di = di"
      using False by (subst sequenceScan.simps) auto
    have "\<not> subseq (take n (drop di ds)) (drop i ts)" if "0 < n" "n \<le> length ds - di" for n
    proof -
      from that have "di < length ds" by auto
      with False "1.prems" have "drop i ts = []" by simp
      moreover have "take n (drop di ds) \<noteq> []" using that by auto
      ultimately show ?thesis by (auto dest: list_emb_Nil2)
    qed
    then show ?thesis using stop by auto
  qed
qed

lemma sequenceScan_matchedCount: "sequenceScan ts ds 0 0 = matchedCount_spec ds ts"
proof -
  obtain k where k: "sequenceScan ts ds 0 0 = k" "k \<le> length ds" "subseq (take k ds) ts"
    "\<forall>n. k < n \<and> n \<le> length ds \<longrightarrow> \<not> subseq (take n ds) ts"
    using sequenceScan_longest[of 0 ts 0 ds] by auto
  let ?S = "set (filter (\<lambda>n. subseq (take n ds) ts) [0..<length ds + 1])"
  have S: "?S = {n. n \<le> length ds \<and> subseq (take n ds) ts}"
    by (auto simp del: upt_Suc)
  have "k \<in> ?S" using k(2,3) unfolding S by simp
  moreover have "n \<le> k" if "n \<in> ?S" for n
    using that k(4) unfolding S by (cases "k < n") auto
  ultimately have "Max ?S = k" by (intro Max_eqI) (auto simp del: upt_Suc)
  then show ?thesis using k(1) by (simp add: matchedCount_spec_def del: upt_Suc)
qed

lemma holdCondition_directions:
  "directions ch = Some ds \<Longrightarrow> \<exists>h. holdCondition ch td = Inr h"
  by (auto simp: holdCondition_def split: option.splits list.splits)

lemma holdCondition_no_duration: "\<not> truthy (duration ch) \<Longrightarrow> holdCondition ch td = Inr None"
  by (cases "duration ch") (auto simp: holdCondition_def)

lemma holdMode_tiltStates:
  "holdMode h now s = (s2, False) \<Longrightarrow> tiltStates s2 = tiltStates s"
  by (auto simp: holdMode_def Let_def split: option.splits if_splits)

lemma floor_index:
  "0 \<le> r \<Longrightarrow> r < 1 \<Longrightarrow> 0 < n \<Longrightarrow> 0 \<le> \<lfloor>r * real n\<rfloor> \<and> \<lfloor>r * real n\<rfloor> < int n"
  by (simp add: floor_less_iff mult_less_cancel_right2)

lemma arrayIndex_in:
  "0 \<le> i \<Longrightarrow> i < int (length xs) \<Longrightarrow> \<exists>x \<in> set xs. arrayIndex xs i = Some x"
  by (simp add: arrayIndex_def)

lemma atan2_sin_cos:
  assumes "- (pi / 2) < a" "a < pi / 2"
  shows "atan2 (sin a) (cos a) = a"
proof -
  have "0 < cos a" using assms by (rule cos_gt_zero_pi)
  then have "atan2 (sin a) (cos a) = arctan (tan a)"
    by (simp add: atan2_def tan_def)
  then show ?thesis using assms by (simp add: arctan_tan)
qed

lemma heading_ten:
  "normalizedHeading \<lparr>vx = cos (pi / 18), vy = sin (pi / 18), vz = 0\<rparr> = 10"
proof -
  have a: "atan2 (sin (pi / 18)) (cos (pi / 18)) = pi / 18"
    by (rule atan2_sin_cos) (simp_all add: field_simps)
  show ?thesis by (simp add: normalizedHeading_def Let_def a)
qed

lemma heading_ninety: "normalizedHeading \<lparr>vx = 0, vy = 1, vz = 0\<rparr> = 90"
  by (simp add: normalizedHeading_def atan2_def Let_def)

lemma tiltEntry_fields:
  "directions (withType ''TILT'' (tiltEntry i ds dur h)) = Some ds"
  "duration (withType ''TILT'' (tiltEntry i ds dur h)) = dur"
  by (simp_all add: withType_def tiltEntry_def emptyObject_def)

subsection \<open>ROTATE\<close>

text \<open>
  C1. The claim: a sample contributes to the accumulated rotation only when the selected
  axis value (\<open>+z\<close> for direction 1) exceeds the speed threshold. The detector compares
  the absolute value of the selected axis value with the threshold: a tick that does not
  complete adds \<open>|axis| \<sqdot> (180/\<pi>)/10\<close> when \<open>|axis|\<close> exceeds the threshold
  and nothing otherwise, so the sign chosen by the direction is lost. For the catalog's
  clockwise challenge and a counter-clockwise reading \<open>z = -1\<close>, the selected axis
  value \<open>-1\<close> does not exceed the threshold \<open>0.5\<close>, and yet the total goes from
  \<open>0\<close> to \<open>1 \<sqdot> (180/\<pi>)/10 = 18/\<pi>\<close> degrees.
\<close>

theorem rotate_counts_against_direction:
  "(\<exists>r. outcome (verifyRotateChallenge ch g thr s) = Inr r
      \<and> rotationProgress (tracking (verifyRotateChallenge ch g thr s))
          = (if completed r then 0
             else rotationProgress s
                  + (if \<bar>rotationAxis ch g\<bar> > ROTATION_SPEED thr
                     then \<bar>rotationAxis ch g\<bar> * (180 / pi) / 10 else 0)))
   \<and> (rotationAxis (withType ''ROTATE'' (rotateEntry
            (''Rotate device 360'' @ degreeSign @ '' clockwise'') 360 1
            ''Turn your device in a full circle'')) \<lparr>vx = 0, vy = 0, vz = - 1\<rparr> = - 1
      \<and> \<not> (- 1 > ROTATION_SPEED (adjustedThresholds 1))
      \<and> rotationProgress resetChallengeTracking = 0
      \<and> rotationProgress (tracking (verifyRotateChallenge
           (withType ''ROTATE'' (rotateEntry
              (''Rotate device 360'' @ degreeSign @ '' clockwise'') 360 1
              ''Turn your device in a full circle''))
           \<lparr>vx = 0, vy = 0, vz = - 1\<rparr> (adjustedThresholds 1) resetChallengeTracking))
          = 18 / pi)"
proof -
  have general: "\<exists>r. outcome (verifyRotateChallenge ch g thr s) = Inr r
      \<and> rotationProgress (tracking (verifyRotateChallenge ch g thr s))
          = (if completed r then 0
             else rotationProgress s
                  + (if \<bar>rotationAxis ch g\<bar> > ROTATION_SPEED thr
                     then \<bar>rotationAxis ch g\<bar> * (180 / pi) / 10 else 0))"
    by (rule rotate_tick_total)
  have "18 / pi < 360"
    using pi_ge_two by (simp add: field_simps)
  then have clockwise: "rotationAxis (withType ''ROTATE'' (rotateEntry
            (''Rotate device 360'' @ degreeSign @ '' clockwise'') 360 1
            ''Turn your device in a full circle'')) \<lparr>vx = 0, vy = 0, vz = - 1\<rparr> = - 1
      \<and> \<not> (- 1 > ROTATION_SPEED (adjustedThresholds 1))
      \<and> rotationProgress resetChallengeTracking = 0
      \<and> rotationProgress (tracking (verifyRotateChallenge
           (withType ''ROTATE'' (rotateEntry
              (''Rotate device 360'' @ degreeSign @ '' clockwise'') 360 1
              ''Turn your device in a full circle''))
           \<lparr>vx = 0, vy = 0, vz = - 1\<rparr> (adjustedThresholds 1) resetChallengeTracking))
          = 18 / pi"
    by (simp add: rotationAxis_def withType_def rotateEntry_def emptyObject_def
        adjustedThresholds_def THRESHOLDS_def resetChallengeTracking_def verifyRotateChallenge_def
        Let_def returns_def)
  from general clockwise show ?thesis by (rule conjI)
qed

subsection \<open>RUN\<close>

text \<open>
  C2. A tick requests the step sound, and increments the counter (which a completing tick
  then resets), exactly when the stored magnitude is at or below the threshold and the
  current one is above it. So the flags of a run of ticks are the rising edges of the
  magnitudes fed, starting from the last magnitude stored. From the reset state, with
  threshold 1.2, the magnitudes 0, 1.5, 0.8, 1.6, 0.9 give a step at the 2nd and at the
  4th sample and nowhere else. A non-empty run of samples all above the threshold,
  entered from a magnitude at or below it, gives one step, at its first sample.
\<close>

theorem run_counts_rising_edges:
  "((played (verifyRunChallenge ch a thr s) = [STEP_DETECTED])
      = (lastAccelMagnitude s \<le> STEP_MAGNITUDE thr \<and> magnitude_of a > STEP_MAGNITUDE thr))
   \<and> (\<exists>r. outcome (verifyRunChallenge ch a thr s) = Inr r
         \<and> stepCount (tracking (verifyRunChallenge ch a thr s))
             = (if completed r then 0
                else if lastAccelMagnitude s \<le> STEP_MAGNITUDE thr
                        \<and> magnitude_of a > STEP_MAGNITUDE thr
                then stepCount s + 1 else stepCount s))
   \<and> stepIncrements (runTicks (\<lambda>a. verifyRunChallenge ch a thr) as s)
     = risingEdges_spec (STEP_MAGNITUDE thr) (lastAccelMagnitude s) (map magnitude_of as)
   \<and> (map magnitude_of as = [0, 15 / 10, 8 / 10, 16 / 10, 9 / 10] \<and> STEP_MAGNITUDE thr = 12 / 10
        \<longrightarrow> stepIncrements (runTicks (\<lambda>a. verifyRunChallenge ch a thr) as resetChallengeTracking)
              = [False, True, False, True, False])
   \<and> (lastAccelMagnitude s \<le> STEP_MAGNITUDE thr \<and> as \<noteq> []
        \<and> (\<forall>a \<in> set as. magnitude_of a > STEP_MAGNITUDE thr)
        \<longrightarrow> stepIncrements (runTicks (\<lambda>a. verifyRunChallenge ch a thr) as s)
              = True # replicate (length as - 1) False)"
proof (intro conjI impI)
  show "(played (verifyRunChallenge ch a thr s) = [STEP_DETECTED])
      = (lastAccelMagnitude s \<le> STEP_MAGNITUDE thr \<and> magnitude_of a > STEP_MAGNITUDE thr)"
    by (rule run_tick_played_iff)
next
  show "\<exists>r. outcome (verifyRunChallenge ch a thr s) = Inr r
         \<and> stepCount (tracking (verifyRunChallenge ch a thr s))
             = (if completed r then 0
                else if lastAccelMagnitude s \<le> STEP_MAGNITUDE thr
                        \<and> magnitude_of a > STEP_MAGNITUDE thr
                then stepCount s + 1 else stepCount s)"
    using run_tick_counter[of ch a thr s] by (auto simp: isStep_def)
next
  show "stepIncrements (runTicks (\<lambda>a. verifyRunChallenge ch a thr) as s)
     = risingEdges_spec (STEP_MAGNITUDE thr) (lastAccelMagnitude s) (map magnitude_of as)"
    by (rule run_flags)
next
  assume "map magnitude_of as = [0, 15 / 10, 8 / 10, 16 / 10, 9 / 10] \<and> STEP_MAGNITUDE thr = 12 / 10"
  then show "stepIncrements (runTicks (\<lambda>a. verifyRunChallenge ch a thr) as resetChallengeTracking)
              = [False, True, False, True, False]"
    by (simp add: run_flags resetChallengeTracking_def)
next
  assume a: "lastAccelMagnitude s \<le> STEP_MAGNITUDE thr \<and> as \<noteq> []
        \<and> (\<forall>a \<in> set as. magnitude_of a > STEP_MAGNITUDE thr)"
  then have "risingEdges_spec (STEP_MAGNITUDE thr) (lastAccelMagnitude s) (map magnitude_of as)
      = True # replicate (length (map magnitude_of as) - 1) False"
    by (intro risingEdges_run) auto
  then show "stepIncrements (runTicks (\<lambda>a. verifyRunChallenge ch a thr) as s)
              = True # replicate (length as - 1) False"
    by (simp add: run_flags)
qed

text \<open>
  An instance: the five samples of the example on the x axis (the counter reads 0, 1, 1,
  2, 2 after them), and three consecutive samples above the threshold, against the first
  RUN entry of the catalog and the thresholds of multiplier 1.
\<close>

theorem run_counts_rising_edges_witness:
  "stepIncrements (runTicks (\<lambda>a. verifyRunChallenge
       (withType ''RUN'' (runEntry ''Run in place for 3 seconds'' 3 (15 / 10) ''Move up and down quickly''))
       a (adjustedThresholds 1))
     [\<lparr>vx = 0, vy = 0, vz = 0\<rparr>, \<lparr>vx = 15 / 10, vy = 0, vz = 0\<rparr>, \<lparr>vx = 8 / 10, vy = 0, vz = 0\<rparr>,
      \<lparr>vx = 16 / 10, vy = 0, vz = 0\<rparr>, \<lparr>vx = 9 / 10, vy = 0, vz = 0\<rparr>] resetChallengeTracking)
   = [False, True, False, True, False]
   \<and> map (\<lambda>t. stepCount (tracking t)) (runTicks (\<lambda>a. verifyRunChallenge
       (withType ''RUN'' (runEntry ''Run in place for 3 seconds'' 3 (15 / 10) ''Move up and down quickly''))
       a (adjustedThresholds 1))
     [\<lparr>vx = 0, vy = 0, vz = 0\<rparr>, \<lparr>vx = 15 / 10, vy = 0, vz = 0\<rparr>, \<lparr>vx = 8 / 10, vy = 0, vz = 0\<rparr>,
      \<lparr>vx = 16 / 10, vy = 0, vz = 0\<rparr>, \<lparr>vx = 9 / 10, vy = 0, vz = 0\<rparr>] resetChallengeTracking)
   = [0, 1, 1, 2, 2]
   \<and> stepIncrements (runTicks (\<lambda>a. verifyRunChallenge
       (withType ''RUN'' (runEntry ''Run in place for 3 seconds'' 3 (15 / 10) ''Move up and down quickly''))
       a (adjustedThresholds 1))
     [\<lparr>vx = 2, vy = 0, vz = 0\<rparr>, \<lparr>vx = 3, vy = 0, vz = 0\<rparr>, \<lparr>vx = 2, vy = 0, vz = 0\<rparr>] resetChallengeTracking)
   = [True, False, False]"
proof -
  let ?ch = "withType ''RUN'' (runEntry ''Run in place for 3 seconds'' 3 (15 / 10) ''Move up and down quickly'')"
  let ?as = "[\<lparr>vx = 0, vy = 0, vz = 0\<rparr>, \<lparr>vx = 15 / 10, vy = 0, vz = 0\<rparr>, \<lparr>vx = 8 / 10, vy = 0, vz = 0\<rparr>,
      \<lparr>vx = 16 / 10, vy = 0, vz = 0\<rparr>, \<lparr>vx = 9 / 10, vy = 0, vz = 0\<rparr>]"
  let ?bs = "[\<lparr>vx = 2, vy = 0, vz = 0\<rparr>, \<lparr>vx = 3, vy = 0, vz = 0\<rparr>, \<lparr>vx = 2, vy = 0, vz = 0\<rparr>]"
  have thr: "STEP_MAGNITUDE (adjustedThresholds 1) = 12 / 10"
    by (simp add: adjustedThresholds_def THRESHOLDS_def)
  have m: "map magnitude_of ?as = [0, 15 / 10, 8 / 10, 16 / 10, 9 / 10]"
    by (simp add: magnitude_of_x_axis)
  have one: "stepIncrements (runTicks (\<lambda>a. verifyRunChallenge ?ch a (adjustedThresholds 1)) ?as resetChallengeTracking)
      = [False, True, False, True, False]"
    using run_counts_rising_edges[where ch = ?ch and thr = "adjustedThresholds 1" and as = ?as] m thr
    by simp
  have b: "lastAccelMagnitude resetChallengeTracking \<le> STEP_MAGNITUDE (adjustedThresholds 1) \<and> ?bs \<noteq> []
        \<and> (\<forall>a \<in> set ?bs. magnitude_of a > STEP_MAGNITUDE (adjustedThresholds 1))"
    by (simp add: thr magnitude_of_x_axis resetChallengeTracking_def)
  have two: "stepIncrements (runTicks (\<lambda>a. verifyRunChallenge ?ch a (adjustedThresholds 1)) ?bs resetChallengeTracking)
      = [True, False, False]"
    using run_counts_rising_edges[where ch = ?ch and thr = "adjustedThresholds 1" and as = ?bs
        and s = resetChallengeTracking] b
    by (simp add: numeral_3_eq_3)
  have counts: "map (\<lambda>t. stepCount (tracking t))
      (runTicks (\<lambda>a. verifyRunChallenge ?ch a (adjustedThresholds 1)) ?as resetChallengeTracking)
      = [0, 1, 1, 2, 2]"
    by (simp add: verifyRunChallenge_def isStep_def magnitude_of_x_axis withType_def runEntry_def
        emptyObject_def adjustedThresholds_def THRESHOLDS_def resetChallengeTracking_def
        returns_def Let_def)
  from one two counts show ?thesis by simp
qed

subsection \<open>TILT\<close>

text \<open>
  The progress of sequence mode is not the matched count over the required count:
  with \<open>left, right\<close> required and \<open>forward\<close> recorded, a tilt backward leaves
  \<open>forward, backward\<close> recorded, none of the required directions matched, and the
  detector returns progress 1.
\<close>

theorem tilt_sequence_progress_counterexample:
  "outcome (verifyTiltChallenge
      (withType ''TILT'' (tiltEntry ''Tilt device left then right'' [''left'', ''right''] None
         ''Tilt from side to side''))
      \<lparr>vx = - 1, vy = 0, vz = 0\<rparr> (adjustedThresholds 1) 0
      (resetChallengeTracking\<lparr>tiltStates := [''forward'']\<rparr>))
     = Inr \<lparr>completed = False, performance = 1\<rparr>
   \<and> recordTilt (tiltDetected (adjustedThresholds 1) \<lparr>vx = - 1, vy = 0, vz = 0\<rparr>) [''forward'']
       = [''forward'', ''backward'']
   \<and> real (matchedCount_spec [''left'', ''right''] [''forward'', ''backward''])
        / real (length [''left'', ''right'']) = 0"
  apply (intro conjI)
    apply (simp add: verifyTiltChallenge_def withType_def tiltEntry_def emptyObject_def
      adjustedThresholds_def THRESHOLDS_def resetChallengeTracking_def tiltDetected_def
      isNewTilt_def recordTilt_def holdCondition_def holdMode_def returns_def Let_def
      sequenceScan.simps)
   apply (simp add: adjustedThresholds_def THRESHOLDS_def tiltDetected_def
      isNewTilt_def recordTilt_def)
  apply (simp add: matchedCount_spec_def upt_rec)
  done

text \<open>
  C3, as amended. In sequence mode (\<open>directions\<close> set), the progress returned while not
  complete is the number of recorded transitions over the number of required directions,
  capped at 1; the recorded transitions are those of the tracking state with this tick's
  tilt recorded.
\<close>

theorem tilt_sequence_progress:
  assumes "directions ch = Some ds"
    and "outcome (verifyTiltChallenge ch g thr now s) = Inr r"
    and "\<not> completed r"
  shows "performance r =
           min (real (length (recordTilt (tiltDetected thr g) (tiltStates s))) / real (length ds)) 1
         \<and> tiltStates (tracking (verifyTiltChallenge ch g thr now s))
             = recordTilt (tiltDetected thr g) (tiltStates s)"
proof -
  define td where "td = tiltDetected thr g"
  define s1 where "s1 = s\<lparr>tiltStates := recordTilt td (tiltStates s)\<rparr>"
  obtain h where h: "holdCondition ch td = Inr h"
    using holdCondition_directions[OF assms(1)] by blast
  obtain s2 held where hm: "holdMode h now s1 = (s2, held)"
    by (cases "holdMode h now s1")
  have nh: "\<not> held"
    using assms h hm
    by (auto simp: verifyTiltChallenge_def Let_def td_def[symmetric] s1_def[symmetric] returns_def)
  then have ts: "tiltStates s2 = recordTilt td (tiltStates s)"
    using holdMode_tiltStates hm s1_def by fastforce
  show ?thesis
    using assms h hm nh ts
    by (auto simp: verifyTiltChallenge_def Let_def td_def[symmetric] s1_def[symmetric] returns_def
        split: if_splits)
qed

text \<open>
  An instance: \<open>left, right\<close> required, nothing recorded, a tilt to the left: one
  transition recorded, progress one half.
\<close>

theorem tilt_sequence_progress_witness:
  "outcome (verifyTiltChallenge
      (withType ''TILT'' (tiltEntry ''Tilt device left then right'' [''left'', ''right''] None
         ''Tilt from side to side''))
      \<lparr>vx = 0, vy = - 1, vz = 0\<rparr> (adjustedThresholds 1) 0 resetChallengeTracking)
     = Inr \<lparr>completed = False, performance = 1 / 2\<rparr>
   \<and> min (real (length (recordTilt (tiltDetected (adjustedThresholds 1) \<lparr>vx = 0, vy = - 1, vz = 0\<rparr>)
              (tiltStates resetChallengeTracking))) / real (length [''left'', ''right''])) 1 = 1 / 2
   \<and> tiltStates (tracking (verifyTiltChallenge
      (withType ''TILT'' (tiltEntry ''Tilt device left then right'' [''left'', ''right''] None
         ''Tilt from side to side''))
      \<lparr>vx = 0, vy = - 1, vz = 0\<rparr> (adjustedThresholds 1) 0 resetChallengeTracking)) = [''left'']"
proof -
  let ?ch = "withType ''TILT'' (tiltEntry ''Tilt device left then right'' [''left'', ''right''] None
         ''Tilt from side to side'')"
  let ?g = "\<lparr>vx = 0, vy = - 1, vz = 0\<rparr> :: vec3"
  have td: "tiltDetected (adjustedThresholds 1) ?g = ''left''"
    by (simp add: adjustedThresholds_def THRESHOLDS_def tiltDetected_def)
  have rec: "recordTilt ''left'' (tiltStates resetChallengeTracking) = [''left'']"
    by (simp add: recordTilt_def isNewTilt_def resetChallengeTracking_def)
  have o: "outcome (verifyTiltChallenge ?ch ?g (adjustedThresholds 1) 0 resetChallengeTracking)
     = Inr \<lparr>completed = False, performance = 1 / 2\<rparr>"
    by (simp add: verifyTiltChallenge_def tiltEntry_fields td
        holdCondition_def holdMode_def returns_def Let_def sequenceScan.simps
        recordTilt_def isNewTilt_def resetChallengeTracking_def)
  have dirs: "directions ?ch = Some [''left'', ''right'']"
    by (simp add: tiltEntry_fields)
  show ?thesis
    using tilt_sequence_progress[OF dirs o] o
    by (simp add: td rec)
qed

text \<open>
  C6. With \<open>directions\<close> set, a tick completes exactly when the hold-mode block
  completed or the required list is a subsequence of the recorded transitions (this tick's
  tilt included); hence for a challenge without a duration, exactly when the required list
  is a subsequence of the recorded transitions.
\<close>

theorem tilt_sequence_completes_iff_subseq:
  assumes "directions ch = Some ds"
  shows "\<exists>h r. holdCondition ch (tiltDetected thr g) = Inr h
           \<and> outcome (verifyTiltChallenge ch g thr now s) = Inr r
           \<and> (completed r =
                (snd (holdMode h now
                        (s\<lparr>tiltStates := recordTilt (tiltDetected thr g) (tiltStates s)\<rparr>))
                 \<or> subseq ds (recordTilt (tiltDetected thr g) (tiltStates s))))
           \<and> (\<not> truthy (duration ch) \<longrightarrow>
                completed r = subseq ds (recordTilt (tiltDetected thr g) (tiltStates s)))"
proof -
  define td where "td = tiltDetected thr g"
  define s1 where "s1 = s\<lparr>tiltStates := recordTilt td (tiltStates s)\<rparr>"
  obtain h where h: "holdCondition ch td = Inr h"
    using holdCondition_directions[OF assms] by blast
  obtain s2 held where hm: "holdMode h now s1 = (s2, held)"
    by (cases "holdMode h now s1")
  have nodur: "\<not> held" if "\<not> truthy (duration ch)"
    using holdCondition_no_duration[OF that, of td] h hm by (simp add: holdMode_def)
  have "\<exists>r. outcome (verifyTiltChallenge ch g thr now s) = Inr r
          \<and> completed r = (held \<or> subseq ds (recordTilt td (tiltStates s)))"
  proof (cases held)
    case True
    then show ?thesis
      using h hm assms
      by (simp add: verifyTiltChallenge_def Let_def td_def[symmetric] s1_def[symmetric]
          returns_def)
  next
    case False
    then have ts: "tiltStates s2 = recordTilt td (tiltStates s)"
      using holdMode_tiltStates hm s1_def by fastforce
    show ?thesis
      using h hm assms False ts
      by (cases "subseq ds (recordTilt td (tiltStates s))")
        (simp_all add: verifyTiltChallenge_def Let_def td_def[symmetric] s1_def[symmetric]
          returns_def sequenceScan_subseq)
  qed
  then obtain r where r: "outcome (verifyTiltChallenge ch g thr now s) = Inr r"
    and c: "completed r = (held \<or> subseq ds (recordTilt td (tiltStates s)))"
    by blast
  show ?thesis
    using h hm r c nodur unfolding td_def s1_def by auto
qed

text \<open>
  An instance: \<open>left, forward, right\<close> required; \<open>left, backward, forward, left\<close>
  recorded and a tilt to the right complete the challenge.
\<close>

theorem tilt_sequence_completes_iff_subseq_witness:
  "outcome (verifyTiltChallenge
      (withType ''TILT'' (tiltEntry ''Tilt left, forward, right'' [''left'', ''forward'', ''right'']
         None ''Three tilts''))
      \<lparr>vx = 0, vy = 1, vz = 0\<rparr> (adjustedThresholds 1) 0
      (resetChallengeTracking\<lparr>tiltStates := [''left'', ''backward'', ''forward'', ''left'']\<rparr>))
     = Inr \<lparr>completed = True, performance = 1\<rparr>
   \<and> recordTilt (tiltDetected (adjustedThresholds 1) \<lparr>vx = 0, vy = 1, vz = 0\<rparr>)
        [''left'', ''backward'', ''forward'', ''left'']
       = [''left'', ''backward'', ''forward'', ''left'', ''right'']
   \<and> subseq [''left'', ''forward'', ''right'']
        [''left'', ''backward'', ''forward'', ''left'', ''right'']"
proof -
  let ?ch = "withType ''TILT'' (tiltEntry ''Tilt left, forward, right''
      [''left'', ''forward'', ''right''] None ''Three tilts'')"
  let ?g = "\<lparr>vx = 0, vy = 1, vz = 0\<rparr> :: vec3"
  let ?s = "resetChallengeTracking\<lparr>tiltStates := [''left'', ''backward'', ''forward'', ''left'']\<rparr>"
  have td: "tiltDetected (adjustedThresholds 1) ?g = ''right''"
    by (simp add: adjustedThresholds_def THRESHOLDS_def tiltDetected_def)
  have rec: "recordTilt ''right'' [''left'', ''backward'', ''forward'', ''left'']
      = [''left'', ''backward'', ''forward'', ''left'', ''right'']"
    by (simp add: recordTilt_def isNewTilt_def)
  have sub: "subseq [''left'', ''forward'', ''right'']
        [''left'', ''backward'', ''forward'', ''left'', ''right'']"
    by simp
  have nd: "\<not> truthy (duration ?ch)"
    by (simp add: tiltEntry_fields)
  have dirs: "directions ?ch = Some [''left'', ''forward'', ''right'']"
    by (simp add: tiltEntry_fields)
  obtain r where r: "outcome (verifyTiltChallenge ?ch ?g (adjustedThresholds 1) 0 ?s) = Inr r"
    and c: "completed r"
    using tilt_sequence_completes_iff_subseq[OF dirs, of "adjustedThresholds 1" ?g 0 ?s] nd sub
    by (auto simp: td rec resetChallengeTracking_def)
  have "outcome (verifyTiltChallenge ?ch ?g (adjustedThresholds 1) 0 ?s)
     = Inr \<lparr>completed = completed r, performance = 1\<rparr>"
    using r c
    by (auto simp: verifyTiltChallenge_def tiltEntry_fields td
        holdCondition_def holdMode_def returns_def Let_def sequenceScan.simps
        recordTilt_def isNewTilt_def resetChallengeTracking_def)
  with c sub show ?thesis by (simp add: td rec)
qed

subsection \<open>DIRECTION\<close>

text \<open>
  C5. Target N, tolerance 20, a sample of normalized heading 10: the difference is 10 and
  the sample matches. On the first match the detector sets the flag, stores the time and
  requests the sound; a matched tick less than 2 seconds after the stored time changes
  nothing; a matched tick 2 seconds or more after it completes with performance
  \<open>1 - 10/20 = 1/2\<close> and clears flag and time; so a first match at \<open>t0\<close> followed by a
  match at least 2 seconds later completes with performance one half. A tick whose sample
  is out of tolerance clears flag and time and does not complete.
\<close>

theorem direction_hold_two_seconds:
  assumes "direction ch = DirLabel ''N''" and "tolerance ch = Some 20"
    and "normalizedHeading m = 10"
  shows "headingDiff ch m = 10 \<and> toleranceOf ch thr = 20
    \<and> (\<not> directionMatched s \<longrightarrow>
         verifyDirectionChallenge ch m thr t0 s =
           returns (s\<lparr>directionMatched := True, lastDirectionMatchTime := t0\<rparr>)
             [DIRECTION_MATCHED] False (17 / 18))
    \<and> (directionMatched s \<and> real_of_int (now - lastDirectionMatchTime s) / 1000 < 2 \<longrightarrow>
         verifyDirectionChallenge ch m thr now s = returns s [] False (17 / 18))
    \<and> (directionMatched s \<and> real_of_int (now - lastDirectionMatchTime s) / 1000 \<ge> 2 \<longrightarrow>
         verifyDirectionChallenge ch m thr now s =
           returns (s\<lparr>directionMatched := False, lastDirectionMatchTime := 0\<rparr>) [] True (1 / 2))
    \<and> (\<not> directionMatched s \<and> real_of_int (now - t0) / 1000 \<ge> 2 \<longrightarrow>
         outcome (verifyDirectionChallenge ch m thr now
                    (tracking (verifyDirectionChallenge ch m thr t0 s)))
           = Inr \<lparr>completed = True, performance = 1 / 2\<rparr>)
    \<and> (headingDiff ch m' > toleranceOf ch thr \<longrightarrow>
         verifyDirectionChallenge ch m' thr now s =
           returns (s\<lparr>directionMatched := False, lastDirectionMatchTime := 0\<rparr>) [] False
             (max 0 (1 - headingDiff ch m' / 180)))"
proof -
  have d: "headingDiff ch m = 10"
    using assms by (simp add: headingDiff_def Let_def)
  have t: "toleranceOf ch thr = 20"
    using assms by (simp add: toleranceOf_def)
  have first: "\<not> directionMatched s \<Longrightarrow>
         verifyDirectionChallenge ch m thr t0 s =
           returns (s\<lparr>directionMatched := True, lastDirectionMatchTime := t0\<rparr>)
             [DIRECTION_MATCHED] False (17 / 18)" for s t0
    by (simp add: verifyDirectionChallenge_def Let_def d t)
  have held: "directionMatched s \<Longrightarrow> real_of_int (now - lastDirectionMatchTime s) / 1000 \<ge> 2 \<Longrightarrow>
         verifyDirectionChallenge ch m thr now s =
           returns (s\<lparr>directionMatched := False, lastDirectionMatchTime := 0\<rparr>) [] True (1 / 2)" for s now
    by (simp add: verifyDirectionChallenge_def Let_def d t)
  have two: "outcome (verifyDirectionChallenge ch m thr now
                    (tracking (verifyDirectionChallenge ch m thr t0 s)))
           = Inr \<lparr>completed = True, performance = 1 / 2\<rparr>"
    if "\<not> directionMatched s" "real_of_int (now - t0) / 1000 \<ge> 2"
  proof -
    have "tracking (verifyDirectionChallenge ch m thr t0 s)
            = s\<lparr>directionMatched := True, lastDirectionMatchTime := t0\<rparr>"
      using first[OF that(1)] by (simp add: returns_def)
    then show ?thesis
      using held[of "s\<lparr>directionMatched := True, lastDirectionMatchTime := t0\<rparr>" now] that(2)
      by (simp add: returns_def)
  qed
  show ?thesis
    apply (intro conjI impI)
          apply (rule d)
         apply (rule t)
        apply (erule first)
       apply (simp add: verifyDirectionChallenge_def Let_def d t)
      apply (simp add: held)
     apply (simp add: two)
    apply (simp add: verifyDirectionChallenge_def Let_def)
    done
qed

text \<open>
  An instance: the catalog's "Face North", a field of heading 10 degrees at 1000 ms and
  at 3000 ms; and a field of heading 90 degrees at 1500 ms, which puts the tracking state
  back to the reset state.
\<close>

theorem direction_hold_two_seconds_witness:
  "outcome (verifyDirectionChallenge
      (withType ''DIRECTION'' (directionEntry ''Face North'' ''N'' 20 ''Use the compass to find North''))
      \<lparr>vx = cos (pi / 18), vy = sin (pi / 18), vz = 0\<rparr> (adjustedThresholds 1) 3000
      (tracking (verifyDirectionChallenge
        (withType ''DIRECTION'' (directionEntry ''Face North'' ''N'' 20 ''Use the compass to find North''))
        \<lparr>vx = cos (pi / 18), vy = sin (pi / 18), vz = 0\<rparr> (adjustedThresholds 1) 1000
        resetChallengeTracking)))
     = Inr \<lparr>completed = True, performance = 1 / 2\<rparr>
   \<and> verifyDirectionChallenge
      (withType ''DIRECTION'' (directionEntry ''Face North'' ''N'' 20 ''Use the compass to find North''))
      \<lparr>vx = 0, vy = 1, vz = 0\<rparr> (adjustedThresholds 1) 1500
      (resetChallengeTracking\<lparr>directionMatched := True, lastDirectionMatchTime := 1000\<rparr>)
     = returns resetChallengeTracking [] False (1 / 2)"
proof -
  let ?ch = "withType ''DIRECTION'' (directionEntry ''Face North'' ''N'' 20 ''Use the compass to find North'')"
  let ?m = "\<lparr>vx = cos (pi / 18), vy = sin (pi / 18), vz = 0\<rparr>"
  let ?m' = "\<lparr>vx = 0, vy = 1, vz = 0\<rparr> :: vec3"
  have dir: "direction ?ch = DirLabel ''N''" and tol: "tolerance ?ch = Some 20"
    by (simp_all add: withType_def directionEntry_def emptyObject_def)
  have lost: "headingDiff ?ch ?m' = 90"
    by (simp add: headingDiff_def heading_ninety dir Let_def)
  let ?s1 = "resetChallengeTracking\<lparr>directionMatched := True, lastDirectionMatchTime := 1000\<rparr>"
  have "\<not> directionMatched resetChallengeTracking \<and> real_of_int (3000 - 1000) / 1000 \<ge> 2"
    by (simp add: resetChallengeTracking_def)
  with direction_hold_two_seconds[OF dir tol heading_ten,
        of "adjustedThresholds 1" resetChallengeTracking 1000 3000 ?m']
  have one: "outcome (verifyDirectionChallenge ?ch ?m (adjustedThresholds 1) 3000
      (tracking (verifyDirectionChallenge ?ch ?m (adjustedThresholds 1) 1000 resetChallengeTracking)))
     = Inr \<lparr>completed = True, performance = 1 / 2\<rparr>"
    by blast
  have "toleranceOf ?ch (adjustedThresholds 1) = 20"
    using direction_hold_two_seconds[OF dir tol heading_ten] by blast
  then have "headingDiff ?ch ?m' > toleranceOf ?ch (adjustedThresholds 1)"
    by (simp add: lost)
  with direction_hold_two_seconds[OF dir tol heading_ten, of "adjustedThresholds 1" ?s1 1000 1500 ?m']
  have "verifyDirectionChallenge ?ch ?m' (adjustedThresholds 1) 1500 ?s1
      = returns (?s1\<lparr>directionMatched := False, lastDirectionMatchTime := 0\<rparr>) [] False
             (max 0 (1 - headingDiff ?ch ?m' / 180))"
    by blast
  then have two: "verifyDirectionChallenge ?ch ?m' (adjustedThresholds 1) 1500 ?s1
      = returns resetChallengeTracking [] False (1 / 2)"
    by (simp add: lost resetChallengeTracking_def)
  from one two show ?thesis by simp
qed

subsection \<open>Dispatch, thresholds and generation\<close>

text \<open>
  C7. For a multiplier \<open>m > 0\<close> the thresholds handed to the detectors are
  \<open>1.2/m\<close>, \<open>0.5/m\<close>, \<open>0.5/m\<close> and \<open>20 \<sqdot> m\<close>.
\<close>

theorem adjusted_thresholds_scale:
  "0 < m \<Longrightarrow>
   adjustedThresholds m =
     \<lparr>STEP_MAGNITUDE = (12 / 10) / m, ROTATION_SPEED = (5 / 10) / m,
      TILT_ANGLE = (5 / 10) / m, DIRECTION_TOLERANCE = 20 * m\<rparr>
   \<and> verifyChallengeCompletion (Some ch) (Some sd) (Some m) now s =
       dispatch ch sd
         \<lparr>STEP_MAGNITUDE = (12 / 10) / m, ROTATION_SPEED = (5 / 10) / m,
          TILT_ANGLE = (5 / 10) / m, DIRECTION_TOLERANCE = 20 * m\<rparr> now s"
  by (simp add: adjustedThresholds_def THRESHOLDS_def verifyChallengeCompletion_def)

text \<open>
  An instance: multiplier 2.
\<close>

theorem adjusted_thresholds_scale_witness:
  "adjustedThresholds 2 =
     \<lparr>STEP_MAGNITUDE = 6 / 10, ROTATION_SPEED = 25 / 100, TILT_ANGLE = 25 / 100,
      DIRECTION_TOLERANCE = 40\<rparr>
   \<and> verifyChallengeCompletion (Some basicChallenge)
        (Some \<lparr>accelerometer = \<lparr>vx = 3, vy = 0, vz = 0\<rparr>, gyroscope = \<lparr>vx = 0, vy = 0, vz = 0\<rparr>,
           magnetometer = \<lparr>vx = 0, vy = 0, vz = 0\<rparr>\<rparr>) (Some 2) 0 resetChallengeTracking
      = dispatch basicChallenge
          \<lparr>accelerometer = \<lparr>vx = 3, vy = 0, vz = 0\<rparr>, gyroscope = \<lparr>vx = 0, vy = 0, vz = 0\<rparr>,
           magnetometer = \<lparr>vx = 0, vy = 0, vz = 0\<rparr>\<rparr>
          \<lparr>STEP_MAGNITUDE = 6 / 10, ROTATION_SPEED = 25 / 100, TILT_ANGLE = 25 / 100,
           DIRECTION_TOLERANCE = 40\<rparr> 0 resetChallengeTracking"
  using adjusted_thresholds_scale[of 2 basicChallenge
      "\<lparr>accelerometer = \<lparr>vx = 3, vy = 0, vz = 0\<rparr>, gyroscope = \<lparr>vx = 0, vy = 0, vz = 0\<rparr>,
           magnetometer = \<lparr>vx = 0, vy = 0, vz = 0\<rparr>\<rparr>" 0 resetChallengeTracking]
  by simp

text \<open>
  C8. With no challenge or no sensor data the verification returns
  \<open>{completed: false, performance: 0}\<close>, raises nothing, requests no sound and leaves the
  tracking variables as they were.
\<close>

theorem verify_null_is_neutral:
  "challenge = None \<or> sensorData = None \<Longrightarrow>
   verifyChallengeCompletion challenge sensorData m now s =
     \<lparr>tracking = s, played = [], outcome = Inr \<lparr>completed = False, performance = 0\<rparr>\<rparr>"
  by (auto simp: verifyChallengeCompletion_def returns_def split: option.splits)

text \<open>
  An instance: no challenge, and no sensor data, with two steps already counted.
\<close>

theorem verify_null_is_neutral_witness:
  "verifyChallengeCompletion None
      (Some \<lparr>accelerometer = \<lparr>vx = 3, vy = 0, vz = 0\<rparr>, gyroscope = \<lparr>vx = 0, vy = 0, vz = 1\<rparr>,
         magnetometer = \<lparr>vx = 0, vy = 1, vz = 0\<rparr>\<rparr>) None 0
      (resetChallengeTracking\<lparr>stepCount := 2\<rparr>)
     = \<lparr>tracking = resetChallengeTracking\<lparr>stepCount := 2\<rparr>, played = [],
        outcome = Inr \<lparr>completed = False, performance = 0\<rparr>\<rparr>
   \<and> verifyChallengeCompletion (Some basicChallenge) None (Some 1) 0
      (resetChallengeTracking\<lparr>stepCount := 2\<rparr>)
     = \<lparr>tracking = resetChallengeTracking\<lparr>stepCount := 2\<rparr>, played = [],
        outcome = Inr \<lparr>completed = False, performance = 0\<rparr>\<rparr>"
  using verify_null_is_neutral[of None
      "Some \<lparr>accelerometer = \<lparr>vx = 3, vy = 0, vz = 0\<rparr>, gyroscope = \<lparr>vx = 0, vy = 0, vz = 1\<rparr>,
         magnetometer = \<lparr>vx = 0, vy = 1, vz = 0\<rparr>\<rparr>" None 0 "resetChallengeTracking\<lparr>stepCount := 2\<rparr>"]
    verify_null_is_neutral[of "Some basicChallenge" None "Some 1" 0
      "resetChallengeTracking\<lparr>stepCount := 2\<rparr>"]
  by simp

text \<open>
  C9. For all draws in \<open>[0, 1)\<close>: with only the accelerometer available the generated
  challenge has type RUN and is an entry of the RUN catalog; with no sensor available it is
  the fixed BASIC challenge "Shake your device". RUN is eligible exactly with the
  accelerometer, ROTATE and TILT exactly with the gyroscope, DIRECTION exactly with the
  magnetometer.
\<close>

theorem generate_respects_availability:
  assumes "0 \<le> random1" and "random1 < 1" and "0 \<le> random2" and "random2 < 1"
  shows "(\<exists>ch. generateChallenge
             \<lparr>accelerometer_available = True, gyroscope_available = False,
              magnetometer_available = False\<rparr> random1 random2 = Inr ch
           \<and> ctype ch = ''RUN''
           \<and> (\<exists>ts. CHALLENGES ''RUN'' = Some ts \<and> (\<exists>t \<in> set ts. ch = withType ''RUN'' t)))
    \<and> generateChallenge
         \<lparr>accelerometer_available = False, gyroscope_available = False,
          magnetometer_available = False\<rparr> random1 random2 = Inr basicChallenge
    \<and> ctype basicChallenge = ''BASIC''
    \<and> instruction basicChallenge = Some ''Shake your device''
    \<and> (''RUN'' \<in> set (availableChallengeTypes sensors) = accelerometer_available sensors)
    \<and> (''ROTATE'' \<in> set (availableChallengeTypes sensors) = gyroscope_available sensors)
    \<and> (''TILT'' \<in> set (availableChallengeTypes sensors) = gyroscope_available sensors)
    \<and> (''DIRECTION'' \<in> set (availableChallengeTypes sensors) = magnetometer_available sensors)"
proof -
  let ?acc = "\<lparr>accelerometer_available = True, gyroscope_available = False,
              magnetometer_available = False\<rparr>"
  obtain ts where ts: "CHALLENGES ''RUN'' = Some ts" and len: "length ts = 4"
    by (simp add: CHALLENGES_def)
  have i1: "\<lfloor>random1\<rfloor> = 0"
    using assms(1,2) by (simp add: floor_eq_iff)
  have "0 \<le> \<lfloor>random2 * real (length ts)\<rfloor> \<and> \<lfloor>random2 * real (length ts)\<rfloor> < int (length ts)"
    using floor_index[OF assms(3,4), of "length ts"] len by simp
  then obtain t where t: "t \<in> set ts" "arrayIndex ts \<lfloor>random2 * real (length ts)\<rfloor> = Some t"
    using arrayIndex_in by blast
  have "generateChallenge ?acc random1 random2 = Inr (withType ''RUN'' t)"
    using i1 t(2) ts
    by (simp add: generateChallenge_def availableChallengeTypes_def arrayIndex_def)
  moreover have "ctype (withType ''RUN'' t) = ''RUN''"
    by (simp add: withType_def)
  ultimately have run: "\<exists>ch. generateChallenge ?acc random1 random2 = Inr ch
           \<and> ctype ch = ''RUN''
           \<and> (\<exists>ts. CHALLENGES ''RUN'' = Some ts \<and> (\<exists>t \<in> set ts. ch = withType ''RUN'' t))"
    using ts t(1) by blast
  have none: "generateChallenge
         \<lparr>accelerometer_available = False, gyroscope_available = False,
          magnetometer_available = False\<rparr> random1 random2 = Inr basicChallenge"
    by (simp add: generateChallenge_def availableChallengeTypes_def)
  have basic: "ctype basicChallenge = ''BASIC''"
    "instruction basicChallenge = Some ''Shake your device''"
    by (simp_all add: basicChallenge_def withType_def emptyObject_def)
  have types: "''RUN'' \<in> set (availableChallengeTypes sensors) = accelerometer_available sensors"
    "''ROTATE'' \<in> set (availableChallengeTypes sensors) = gyroscope_available sensors"
    "''TILT'' \<in> set (availableChallengeTypes sensors) = gyroscope_available sensors"
    "''DIRECTION'' \<in> set (availableChallengeTypes sensors) = magnetometer_available sensors"
    by (simp_all add: availableChallengeTypes_def)
  from run none basic types show ?thesis by blast
qed

text \<open>
  An instance: the draws 0.5 and 0.9 select the fourth RUN entry.
\<close>

theorem generate_respects_availability_witness:
  "generateChallenge
     \<lparr>accelerometer_available = True, gyroscope_available = False,
      magnetometer_available = False\<rparr> (1 / 2) (9 / 10)
     = Inr (withType ''RUN'' (runEntry ''March in place for 5 seconds'' 5 (13 / 10) ''Raise knees high''))
   \<and> generateChallenge
         \<lparr>accelerometer_available = False, gyroscope_available = False,
          magnetometer_available = False\<rparr> (1 / 2) (9 / 10) = Inr basicChallenge
   \<and> ctype basicChallenge = ''BASIC''"
proof -
  have f: "\<lfloor>36 / 10 :: real\<rfloor> = 3" by (simp add: floor_eq_iff)
  have g: "generateChallenge
     \<lparr>accelerometer_available = True, gyroscope_available = False,
      magnetometer_available = False\<rparr> (1 / 2) (9 / 10)
     = Inr (withType ''RUN'' (runEntry ''March in place for 5 seconds'' 5 (13 / 10) ''Raise knees high''))"
    by (simp add: generateChallenge_def availableChallengeTypes_def arrayIndex_def CHALLENGES_def f)
  show ?thesis
    using generate_respects_availability[of "1 / 2" "9 / 10"] g by simp
qed



subsection \<open>The polling tick\<close>

text \<open>
  C4. The claim: the multiplier of a verification tick is the persisted sensitivity.
  The interval callback passes no multiplier, so every tick dispatches with the thresholds
  of the default multiplier 1, whatever is persisted: with the level "easy" persisted
  (sensitivity 0.7, step threshold \<open>1.2/0.7\<close>), a reading of magnitude 1.5 is counted
  as a step by the tick, as under the threshold 1.2, while the verification called with
  the persisted sensitivity does not count it.
\<close>

theorem tick_ignores_persisted_sensitivity:
  "checkCompletionInterval persisted ch sd now s = dispatch ch sd (adjustedThresholds 1) now s
   \<and> (sensitivity (changeDifficulty ''easy'') = 7 / 10
      \<and> played (checkCompletionInterval (changeDifficulty ''easy'')
           (withType ''RUN'' (runEntry ''Run in place for 3 seconds'' 3 (15 / 10)
              ''Move up and down quickly''))
           \<lparr>accelerometer = \<lparr>vx = 15 / 10, vy = 0, vz = 0\<rparr>,
             gyroscope = \<lparr>vx = 0, vy = 0, vz = 0\<rparr>,
             magnetometer = \<lparr>vx = 0, vy = 0, vz = 0\<rparr>\<rparr> 0 resetChallengeTracking)
          = [STEP_DETECTED]
      \<and> played (verifyChallengeCompletion
           (Some (withType ''RUN'' (runEntry ''Run in place for 3 seconds'' 3 (15 / 10)
              ''Move up and down quickly'')))
           (Some \<lparr>accelerometer = \<lparr>vx = 15 / 10, vy = 0, vz = 0\<rparr>,
             gyroscope = \<lparr>vx = 0, vy = 0, vz = 0\<rparr>,
             magnetometer = \<lparr>vx = 0, vy = 0, vz = 0\<rparr>\<rparr>)
           (Some (sensitivity (changeDifficulty ''easy''))) 0 resetChallengeTracking)
          = [])"
proof -
  have general: "checkCompletionInterval persisted ch sd now s
      = dispatch ch sd (adjustedThresholds 1) now s"
    by (rule tick_default)
  have easy: "sensitivity (changeDifficulty ''easy'') = 7 / 10
      \<and> played (checkCompletionInterval (changeDifficulty ''easy'')
           (withType ''RUN'' (runEntry ''Run in place for 3 seconds'' 3 (15 / 10)
              ''Move up and down quickly''))
           \<lparr>accelerometer = \<lparr>vx = 15 / 10, vy = 0, vz = 0\<rparr>,
             gyroscope = \<lparr>vx = 0, vy = 0, vz = 0\<rparr>,
             magnetometer = \<lparr>vx = 0, vy = 0, vz = 0\<rparr>\<rparr> 0 resetChallengeTracking)
          = [STEP_DETECTED]
      \<and> played (verifyChallengeCompletion
           (Some (withType ''RUN'' (runEntry ''Run in place for 3 seconds'' 3 (15 / 10)
              ''Move up and down quickly'')))
           (Some \<lparr>accelerometer = \<lparr>vx = 15 / 10, vy = 0, vz = 0\<rparr>,
             gyroscope = \<lparr>vx = 0, vy = 0, vz = 0\<rparr>,
             magnetometer = \<lparr>vx = 0, vy = 0, vz = 0\<rparr>\<rparr>)
           (Some (sensitivity (changeDifficulty ''easy''))) 0 resetChallengeTracking)
          = []"
    by (simp add: changeDifficulty_def checkCompletionInterval_def verifyChallengeCompletion_def
        dispatch_def withType_def run_tick_played isStep_def magnitude_of_x_axis
        adjustedThresholds_def THRESHOLDS_def resetChallengeTracking_def)
  from general easy show ?thesis by (rule conjI)
qed

end
